theory Spec2Isabelle
  imports Complex_Main
begin

section \<open>Numbers, errors and matrices\<close>

text \<open>
  The program works on Armadillo matrices of C++ \<^verbatim>\<open>double\<close>. The matrices a caller
  passes in are matrices of finite doubles. A finite double is a real number, and
  \<open>mat\<close>, a matrix of reals, is the type of those matrices.

  The matrix algebra of the layer and the element formulas of the squared, the absolute,
  the Huber and the pseudo-Huber loss are modelled over the reals, with the exact
  operations. The \<^verbatim>\<open>eval\<close> of the log loss, whose clamp deals with the values that are
  not finite, is modelled in double arithmetic, and so is, a second time, the \<^verbatim>\<open>grad\<close>
  of the pseudo-Huber loss, whose size is compared with a bound: the type \<open>double\<close>
  below adds the IEEE 754 special values, and every operation of double arithmetic
  rounds its exact result to the nearest double, ties to even, and overflows to an
  infinity.

  Armadillo checks the dimensions of the operands of every matrix operation and the
  bounds of every index list, and throws when the check fails; Rcpp throws when a named
  list has no element of the name asked for or the element has the wrong kind. Every
  such exception is a value of the type \<open>error\<close>.
\<close>

datatype error =
    IncompatibleDimensions
  | IndexOutOfBounds
  | NotCompatible
  | Other string

datatype double = NaN | NInf | Fin real | PInf

text \<open>
  \<^verbatim>\<open>arma::Mat<eT>\<close>: the dimensions and the elements in column-major order, so the
  element of row \<open>i\<close> and column \<open>j\<close> is at the linear index \<open>i + j * n_rows\<close>.
\<close>

record 'a Mat =
  n_rows :: nat
  n_cols :: nat
  mem :: "'a list"

type_synonym mat = "real Mat"

type_synonym vec = "real list"

definition n_elem :: "'a Mat \<Rightarrow> nat" where
  "n_elem M = n_rows M * n_cols M"

definition wf_Mat :: "'a Mat \<Rightarrow> bool" where
  "wf_Mat M = (length (mem M) = n_rows M * n_cols M)"

definition Mat_at :: "'a Mat \<Rightarrow> nat \<Rightarrow> nat \<Rightarrow> 'a" where
  "Mat_at M i j = mem M ! (i + j * n_rows M)"

definition Mat_init :: "nat \<Rightarrow> nat \<Rightarrow> (nat \<Rightarrow> nat \<Rightarrow> 'a) \<Rightarrow> 'a Mat" where
  "Mat_init r c f =
     \<lparr>n_rows = r, n_cols = c,
      mem = concat (map (\<lambda>j. map (\<lambda>i. f i j) [0..<r]) [0..<c])\<rparr>"

text \<open>A default-constructed \<^verbatim>\<open>mat\<close> has no rows and no columns.\<close>

definition Mat_empty :: "'a Mat" where
  "Mat_empty = \<lparr>n_rows = 0, n_cols = 0, mem = []\<rparr>"

definition same_size :: "'a Mat \<Rightarrow> 'b Mat \<Rightarrow> bool" where
  "same_size A B = (n_rows A = n_rows B \<and> n_cols A = n_cols B)"

text \<open>Element-wise functions (\<^verbatim>\<open>abs\<close>, \<^verbatim>\<open>sign\<close>, \<^verbatim>\<open>pow\<close>, a scalar operand) keep the shape.\<close>

definition map_Mat :: "('a \<Rightarrow> 'b) \<Rightarrow> 'a Mat \<Rightarrow> 'b Mat" where
  "map_Mat f M = \<lparr>n_rows = n_rows M, n_cols = n_cols M, mem = map f (mem M)\<rparr>"

text \<open>
  Element-wise binary operators (\<^verbatim>\<open>A - B\<close>, \<^verbatim>\<open>A % B\<close>) throw
  \<^verbatim>\<open>std::logic_error\<close> unless both operands have the same dimensions.
\<close>

definition zip_Mat :: "('a \<Rightarrow> 'b \<Rightarrow> 'c) \<Rightarrow> 'a Mat \<Rightarrow> 'b Mat \<Rightarrow> error + 'c Mat" where
  "zip_Mat f A B =
     (if same_size A B
      then Inr \<lparr>n_rows = n_rows A, n_cols = n_cols A, mem = map2 f (mem A) (mem B)\<rparr>
      else Inl IncompatibleDimensions)"

definition Mat_minus :: "mat \<Rightarrow> mat \<Rightarrow> error + mat" where
  "Mat_minus A B = zip_Mat (\<lambda>x y. x - y) A B"

definition Mat_schur :: "mat \<Rightarrow> mat \<Rightarrow> error + mat" where
  "Mat_schur A B = zip_Mat (\<lambda>x y. x * y) A B"

text \<open>\<^verbatim>\<open>A * B\<close>: the matrix product, defined when \<open>A\<close> has as many columns as \<open>B\<close> has rows.\<close>

definition Mat_times :: "mat \<Rightarrow> mat \<Rightarrow> error + mat" where
  "Mat_times A B =
     (if n_cols A = n_rows B
      then Inr (Mat_init (n_rows A) (n_cols B)
                  (\<lambda>i j. \<Sum>k\<leftarrow>[0..<n_cols A]. Mat_at A i k * Mat_at B k j))
      else Inl IncompatibleDimensions)"

text \<open>\<^verbatim>\<open>A.t()\<close>: the transpose.\<close>

definition Mat_t :: "'a Mat \<Rightarrow> 'a Mat" where
  "Mat_t A = Mat_init (n_cols A) (n_rows A) (\<lambda>i j. Mat_at A j i)"

text \<open>
  \<^verbatim>\<open>M.each_col() += v\<close>: adds the vector to every column; the vector must have as many
  elements as the matrix has rows.
\<close>

definition each_col_plus :: "mat \<Rightarrow> vec \<Rightarrow> error + mat" where
  "each_col_plus M v =
     (if length v = n_rows M
      then Inr (Mat_init (n_rows M) (n_cols M) (\<lambda>i j. Mat_at M i j + v ! i))
      else Inl IncompatibleDimensions)"

section \<open>Layer\<close>

text \<open>
  The activation \<^verbatim>\<open>g\<close> and the optimizer \<^verbatim>\<open>O\<close> of a layer are objects of classes
  defined elsewhere. Their methods are parameters of the model: a call may throw, and a
  call of the optimizer may change the optimizer's own state, which is the field \<open>O_opt\<close>
  of the layer (\<open>O\<close> alone is HOL's composition of relations).
\<close>

record Activation =
  eval :: "mat \<Rightarrow> error + mat"
  grad :: "mat \<Rightarrow> error + mat"

record 's Optimizer =
  updateW :: "'s \<Rightarrow> mat \<Rightarrow> mat \<Rightarrow> mat \<Rightarrow> (error + mat) \<times> 's"
  updateb :: "'s \<Rightarrow> vec \<Rightarrow> mat \<Rightarrow> (error + vec) \<times> 's"

record 's Layer =
  n_nodes :: nat
  W :: mat
  b :: vec
  O_opt :: 's
  A_prev :: mat
  Z :: mat

text \<open>
  \<^verbatim>\<open>Layer::Layer(nodes_in_, nodes_out_, activ_param_, optim_param_)\<close>, for sizes that
  are not negative. \<open>randn\<close> gives the draw for each element of \<^verbatim>\<open>randn<mat>\<close>, and
  \<open>s0\<close> is the state of the optimizer the factory returns. The caches \<^verbatim>\<open>A_prev\<close> and
  \<^verbatim>\<open>Z\<close> are default-constructed.
\<close>

definition Layer_new :: "nat \<Rightarrow> nat \<Rightarrow> (nat \<Rightarrow> nat \<Rightarrow> real) \<Rightarrow> 's \<Rightarrow> 's Layer" where
  "Layer_new nodes_in nodes_out randn s0 =
     \<lparr>n_nodes = nodes_out,
      W = Mat_init nodes_out nodes_in (\<lambda>i j. randn i j / sqrt (real nodes_in)),
      b = replicate nodes_out 0,
      O_opt = s0,
      A_prev = Mat_empty,
      Z = Mat_empty\<rparr>"

text \<open>
  \<^verbatim>\<open>Layer::forward\<close> and \<^verbatim>\<open>Layer::backward\<close> return the value or the exception, and
  the layer as the call leaves it: an assignment made before a statement throws stays.
\<close>

definition forward :: "Activation \<Rightarrow> 's Layer \<Rightarrow> mat \<Rightarrow> (error + mat) \<times> 's Layer" where
  "forward act L X =
     (let L1 = L\<lparr>A_prev := X\<rparr> in
      case Mat_times (W L1) X of
        Inl e \<Rightarrow> (Inl e, L1)
      | Inr Z0 \<Rightarrow>
          let L2 = L1\<lparr>Z := Z0\<rparr> in
          (case each_col_plus (Z L2) (b L2) of
             Inl e \<Rightarrow> (Inl e, L2)
           | Inr Z1 \<Rightarrow>
               let L3 = L2\<lparr>Z := Z1\<rparr> in (eval act (Z L3), L3)))"

definition backward ::
    "Activation \<Rightarrow> 's Optimizer \<Rightarrow> 's Layer \<Rightarrow> mat \<Rightarrow> (error + mat) \<times> 's Layer" where
  "backward act opt L E =
     (case grad act (Z L) of
        Inl e \<Rightarrow> (Inl e, L)
      | Inr G \<Rightarrow>
          (case Mat_schur E (Mat_t G) of
             Inl e \<Rightarrow> (Inl e, L)
           | Inr D \<Rightarrow>
               (case updateW opt (O_opt L) (W L) D (A_prev L) of
                  (Inl e, s1) \<Rightarrow> (Inl e, L\<lparr>O_opt := s1\<rparr>)
                | (Inr W1, s1) \<Rightarrow>
                    let L1 = L\<lparr>W := W1, O_opt := s1\<rparr> in
                    (case updateb opt (O_opt L1) (b L1) D of
                       (Inl e, s2) \<Rightarrow> (Inl e, L1\<lparr>O_opt := s2\<rparr>)
                     | (Inr b1, s2) \<Rightarrow>
                         let L2 = L1\<lparr>b := b1, O_opt := s2\<rparr> in
                         (Mat_times D (W L2), L2)))))"

section \<open>Loss functions\<close>

subsection \<open>Double arithmetic\<close>

text \<open>
  \<^verbatim>\<open>std::numeric_limits<double>::min()\<close> is the smallest positive normal double and
  \<^verbatim>\<open>max()\<close> the largest finite double.
\<close>

definition DBL_MIN :: real where
  "DBL_MIN = 1 / 2 ^ 1022"

definition DBL_MAX :: real where
  "DBL_MAX = (2 - 1 / 2 ^ 52) * 2 ^ 1023"

text \<open>
  Rounding to nearest, ties to even. A double is an integer of magnitude below \<open>2 ^ 53\<close>
  times a power of two that is at least \<open>2 ^ (- 1074)\<close>. \<open>expo x\<close> is the exponent of
  the binade of \<open>x\<close>, and \<open>- 1022\<close> for the subnormal numbers; \<open>ulp x\<close> is the distance
  between two neighbouring doubles of that binade; \<open>RN x\<close> is the multiple of \<open>ulp x\<close>
  nearest to \<open>x\<close>, of two equally near ones the even multiple. \<open>fl x\<close> is the double
  that an operation with the exact result \<open>x\<close> returns: \<open>RN x\<close>, or an infinity when
  \<open>RN x\<close> is beyond the largest finite double.
\<close>

definition round_even :: "real \<Rightarrow> int" where
  "round_even t =
     (let n = \<lfloor>t\<rfloor>; r = t - of_int n
      in if r < 1 / 2 then n else if 1 / 2 < r then n + 1 else if even n then n else n + 1)"

definition expo :: "real \<Rightarrow> int" where
  "expo x = max \<lfloor>log 2 \<bar>x\<bar>\<rfloor> (- 1022)"

definition ulp :: "real \<Rightarrow> real" where
  "ulp x = 2 powi (expo x - 52)"

definition RN :: "real \<Rightarrow> real" where
  "RN x = ulp x * of_int (round_even (x / ulp x))"

definition fl :: "real \<Rightarrow> double" where
  "fl x = (let r = RN x in if DBL_MAX < r then PInf else if r < - DBL_MAX then NInf else Fin r)"

text \<open>
  IEEE 754 addition, multiplication, division, square root and negation. The model
  has one zero: the only zero divisor of the program is a row count, which converts
  to \<open>+0.0\<close>. \<^verbatim>\<open>pow(x, 2)\<close> is the rounded square, and \<^verbatim>\<open>std::log\<close> is taken to
  return the rounded logarithm.
\<close>

fun add_d :: "double \<Rightarrow> double \<Rightarrow> double" where
  "add_d NaN y = NaN"
| "add_d x NaN = NaN"
| "add_d (Fin x) (Fin y) = fl (x + y)"
| "add_d PInf NInf = NaN"
| "add_d NInf PInf = NaN"
| "add_d PInf y = PInf"
| "add_d x PInf = PInf"
| "add_d NInf y = NInf"
| "add_d x NInf = NInf"


fun div_d :: "double \<Rightarrow> double \<Rightarrow> double" where
  "div_d NaN y = NaN"
| "div_d x NaN = NaN"
| "div_d (Fin x) (Fin y) =
     (if y \<noteq> 0 then fl (x / y)
      else if x = 0 then NaN else if 0 < x then PInf else NInf)"
| "div_d (Fin x) PInf = Fin 0"
| "div_d (Fin x) NInf = Fin 0"
| "div_d PInf (Fin y) = (if 0 \<le> y then PInf else NInf)"
| "div_d NInf (Fin y) = (if 0 \<le> y then NInf else PInf)"
| "div_d PInf PInf = NaN"
| "div_d PInf NInf = NaN"
| "div_d NInf PInf = NaN"
| "div_d NInf NInf = NaN"



instantiation double :: uminus
begin

fun uminus_double :: "double \<Rightarrow> double" where
  "uminus_double NaN = NaN"
| "uminus_double NInf = PInf"
| "uminus_double (Fin x) = Fin (- x)"
| "uminus_double PInf = NInf"

instance ..

end

text \<open>The comparison \<^verbatim>\<open><\<close> of two doubles: false whenever an operand is NaN.\<close>

fun less_d :: "double \<Rightarrow> double \<Rightarrow> bool" where
  "less_d NaN y = False"
| "less_d x NaN = False"
| "less_d (Fin x) (Fin y) = (x < y)"
| "less_d x NInf = False"
| "less_d NInf y = True"
| "less_d PInf y = False"
| "less_d x PInf = True"

text \<open>\<^verbatim>\<open>std::log\<close> of a finite double: minus infinity at zero, NaN below zero.\<close>

definition log_d :: "real \<Rightarrow> double" where
  "log_d x = (if 0 < x then fl (ln x) else if x = 0 then NInf else NaN)"

text \<open>
  \<^verbatim>\<open>clamp(l, min_val, max_val)\<close> computes
  \<^verbatim>\<open>(val < min_val) ? min_val : ((val > max_val) ? max_val : val)\<close> for each element.
\<close>

definition clamp_d :: "double \<Rightarrow> double \<Rightarrow> double \<Rightarrow> double" where
  "clamp_d v min_val max_val =
     (if less_d v min_val then min_val else if less_d max_val v then max_val else v)"

definition clamp :: "double Mat \<Rightarrow> double \<Rightarrow> double \<Rightarrow> double Mat" where
  "clamp M min_val max_val = map_Mat (\<lambda>v. clamp_d v min_val max_val) M"

text \<open>
  \<^verbatim>\<open>accu(l) / y.n_rows\<close> over the reals: an exact sum divided by an unsigned row
  count. A count of zero converts to \<open>+0.0\<close>, and IEEE 754 gives NaN for \<open>0 / 0\<close> and
  an infinity for any other finite numerator.
\<close>

fun divide_uword :: "double \<Rightarrow> nat \<Rightarrow> double" where
  "divide_uword (Fin x) n =
     (if n \<noteq> 0 then Fin (x / real n)
      else if x = 0 then NaN else if 0 < x then PInf else NInf)"
| "divide_uword x n = x"

subsection \<open>Sums, index lists and sub-views\<close>

text \<open>\<^verbatim>\<open>accu(M)\<close>: the sum of all elements, over the reals.\<close>

definition accu :: "'a::comm_monoid_add Mat \<Rightarrow> 'a" where
  "accu M = sum_list (mem M)"

text \<open>
  \<^verbatim>\<open>accu(M)\<close> in double arithmetic, where the order of the additions matters.
  Armadillo adds the elements of even index to one accumulator and the elements of odd
  index to a second one, both starting at zero, and returns the sum of the two.
\<close>

fun accumulate :: "double \<Rightarrow> double \<Rightarrow> double list \<Rightarrow> double" where
  "accumulate acc1 acc2 (x # y # xs) = accumulate (add_d acc1 x) (add_d acc2 y) xs"
| "accumulate acc1 acc2 [x] = add_d (add_d acc1 x) acc2"
| "accumulate acc1 acc2 [] = add_d acc1 acc2"

definition accu_d :: "double Mat \<Rightarrow> double" where
  "accu_d M = accumulate (Fin 0) (Fin 0) (mem M)"

text \<open>\<^verbatim>\<open>find(cond)\<close>: the linear indices of the elements that satisfy the condition, ascending.\<close>

definition find_Mat :: "('a \<Rightarrow> bool) \<Rightarrow> 'a Mat \<Rightarrow> nat list" where
  "find_Mat p M = filter (\<lambda>k. p (mem M ! k)) [0..<n_elem M]"

text \<open>
  \<^verbatim>\<open>M.elem(idx)\<close> read: the column vector of the elements at the linear indices
  \<open>idx\<close>; an index outside the matrix throws.
\<close>

definition elem :: "'a Mat \<Rightarrow> nat list \<Rightarrow> error + 'a Mat" where
  "elem M idx =
     (if list_all (\<lambda>k. k < n_elem M) idx
      then Inr \<lparr>n_rows = length idx, n_cols = 1, mem = map (\<lambda>k. mem M ! k) idx\<rparr>
      else Inl IndexOutOfBounds)"

text \<open>
  \<^verbatim>\<open>M(idx) = V\<close>: writes the elements of \<open>V\<close> to the linear indices \<open>idx\<close> of \<open>M\<close>;
  \<open>V\<close> must have as many elements as \<open>idx\<close>.
\<close>

definition set_elem :: "'a Mat \<Rightarrow> nat list \<Rightarrow> 'a Mat \<Rightarrow> error + 'a Mat" where
  "set_elem M idx V =
     (if \<not> list_all (\<lambda>k. k < n_elem M) idx then Inl IndexOutOfBounds
      else if length idx \<noteq> n_elem V then Inl IncompatibleDimensions
      else Inr \<lparr>n_rows = n_rows M, n_cols = n_cols M,
                mem = fold (\<lambda>(k, x) xs. xs[k := x]) (zip idx (mem V)) (mem M)\<rparr>)"

subsection \<open>The loss classes\<close>

text \<open>
  \<^verbatim>\<open>pow(M, 2)\<close> is the square of each element, \<^verbatim>\<open>sign\<close> is \<open>-1\<close>, \<open>0\<close> or \<open>1\<close>.
  The parameter \<^verbatim>\<open>dHuber\<close> of the two Huber classes divides in
  \<^verbatim>\<open>pseudoHuberLoss\<close>; the model of that class is for \<open>dHuber \<noteq> 0\<close>.

  \<^verbatim>\<open>logLoss::eval\<close> is in double arithmetic: the logarithm, the sum and the quotient
  round, and the row count converts to a double.
\<close>

definition logLoss_eval :: "mat \<Rightarrow> mat \<Rightarrow> error + double" where
  "logLoss_eval y y_fit =
     (case elem y_fit (find_Mat (\<lambda>v. v = 1) y) of
        Inl e \<Rightarrow> Inl e
      | Inr sel \<Rightarrow>
          let l = map_Mat (\<lambda>x. - log_d x) sel;
              l = clamp l (Fin DBL_MIN) (Fin DBL_MAX)
          in Inr (div_d (accu_d l) (fl (real (n_rows y)))))"

definition logLoss_grad :: "mat \<Rightarrow> mat \<Rightarrow> error + mat" where
  "logLoss_grad y y_fit = Mat_minus y_fit y"

definition squaredLoss_eval :: "mat \<Rightarrow> mat \<Rightarrow> error + double" where
  "squaredLoss_eval y y_fit =
     (case Mat_minus y_fit y of
        Inl e \<Rightarrow> Inl e
      | Inr D \<Rightarrow>
          let l = map_Mat (\<lambda>x. x ^ 2) D
          in Inr (divide_uword (Fin (accu l)) (n_rows y)))"

definition squaredLoss_grad :: "mat \<Rightarrow> mat \<Rightarrow> error + mat" where
  "squaredLoss_grad y y_fit =
     (case Mat_minus y_fit y of
        Inl e \<Rightarrow> Inl e
      | Inr D \<Rightarrow> Inr (map_Mat (\<lambda>x. 2 * x) D))"

definition absoluteLoss_eval :: "mat \<Rightarrow> mat \<Rightarrow> error + double" where
  "absoluteLoss_eval y y_fit =
     (case Mat_minus y_fit y of
        Inl e \<Rightarrow> Inl e
      | Inr D \<Rightarrow>
          let l = map_Mat abs D
          in Inr (divide_uword (Fin (accu l)) (n_rows y)))"

definition absoluteLoss_grad :: "mat \<Rightarrow> mat \<Rightarrow> error + mat" where
  "absoluteLoss_grad y y_fit =
     (case Mat_minus y_fit y of
        Inl e \<Rightarrow> Inl e
      | Inr D \<Rightarrow> Inr (map_Mat sgn D))"

definition huberLoss_eval :: "real \<Rightarrow> mat \<Rightarrow> mat \<Rightarrow> error + double" where
  "huberLoss_eval dHuber y y_fit =
     (case Mat_minus y_fit y of
        Inl e \<Rightarrow> Inl e
      | Inr D \<Rightarrow>
          let E = map_Mat abs D;
              l = map_Mat (\<lambda>x. dHuber * (x - dHuber / 2)) E;
              iE = find_Mat (\<lambda>x. x \<le> dHuber) E
          in (case elem E iE of
                Inl e \<Rightarrow> Inl e
              | Inr EiE \<Rightarrow>
                  (case set_elem l iE (map_Mat (\<lambda>x. x ^ 2 / 2) EiE) of
                     Inl e \<Rightarrow> Inl e
                   | Inr l \<Rightarrow> Inr (divide_uword (Fin (accu l)) (n_rows y)))))"

definition huberLoss_grad :: "real \<Rightarrow> mat \<Rightarrow> mat \<Rightarrow> error + mat" where
  "huberLoss_grad dHuber y y_fit =
     (case Mat_minus y_fit y of
        Inl e \<Rightarrow> Inl e
      | Inr E \<Rightarrow>
          let dl = map_Mat (\<lambda>x. dHuber * sgn x) E;
              iE = find_Mat (\<lambda>x. x \<le> dHuber) (map_Mat abs E)
          in (case elem E iE of
                Inl e \<Rightarrow> Inl e
              | Inr EiE \<Rightarrow> set_elem dl iE EiE))"

definition pseudoHuberLoss_eval :: "real \<Rightarrow> mat \<Rightarrow> mat \<Rightarrow> error + double" where
  "pseudoHuberLoss_eval dHuber y y_fit =
     (case Mat_minus y_fit y of
        Inl e \<Rightarrow> Inl e
      | Inr D \<Rightarrow>
          let l = map_Mat (\<lambda>x. sqrt (1 + (x / dHuber) ^ 2) - 1) D
          in Inr (divide_uword (Fin (accu l)) (n_rows y)))"

definition pseudoHuberLoss_grad :: "real \<Rightarrow> mat \<Rightarrow> mat \<Rightarrow> error + mat" where
  "pseudoHuberLoss_grad dHuber y y_fit =
     (case Mat_minus y_fit y of
        Inl e \<Rightarrow> Inl e
      | Inr E \<Rightarrow> Mat_schur E (map_Mat (\<lambda>x. 1 / sqrt (1 + (x / dHuber) ^ 2)) E))"


text \<open>
  An object of a class derived from \<^verbatim>\<open>loss\<close>, and the virtual calls \<^verbatim>\<open>eval\<close> and
  \<^verbatim>\<open>grad\<close> on it.
\<close>

datatype loss =
    logLoss
  | squaredLoss
  | absoluteLoss
  | huberLoss real
  | pseudoHuberLoss real

fun loss_eval :: "loss \<Rightarrow> mat \<Rightarrow> mat \<Rightarrow> error + double" where
  "loss_eval logLoss y y_fit = logLoss_eval y y_fit"
| "loss_eval squaredLoss y y_fit = squaredLoss_eval y y_fit"
| "loss_eval absoluteLoss y y_fit = absoluteLoss_eval y y_fit"
| "loss_eval (huberLoss dHuber) y y_fit = huberLoss_eval dHuber y y_fit"
| "loss_eval (pseudoHuberLoss dHuber) y y_fit = pseudoHuberLoss_eval dHuber y y_fit"

fun loss_grad :: "loss \<Rightarrow> mat \<Rightarrow> mat \<Rightarrow> error + mat" where
  "loss_grad logLoss y y_fit = logLoss_grad y y_fit"
| "loss_grad squaredLoss y y_fit = squaredLoss_grad y y_fit"
| "loss_grad absoluteLoss y y_fit = absoluteLoss_grad y y_fit"
| "loss_grad (huberLoss dHuber) y y_fit = huberLoss_grad dHuber y y_fit"
| "loss_grad (pseudoHuberLoss dHuber) y y_fit = pseudoHuberLoss_grad dHuber y y_fit"

subsection \<open>The loss factory\<close>

text \<open>
  An \<^verbatim>\<open>Rcpp::List\<close> is a list of named R values; the values the factory reads are a
  string and a number. \<^verbatim>\<open>list["name"]\<close> converted to a C++ type takes the first
  element of that name and throws \<^verbatim>\<open>index_out_of_bounds\<close> when there is none; the
  conversion throws \<^verbatim>\<open>not_compatible\<close> when the value is of the other kind.
\<close>

datatype robject = Chr string | Num real

type_synonym List = "(string \<times> robject) list"

definition List_get :: "List \<Rightarrow> string \<Rightarrow> error + robject" where
  "List_get xs name =
     (case map_of xs name of None \<Rightarrow> Inl IndexOutOfBounds | Some v \<Rightarrow> Inr v)"

fun as_string :: "robject \<Rightarrow> error + string" where
  "as_string (Chr s) = Inr s"
| "as_string (Num x) = Inl NotCompatible"

fun as_double :: "robject \<Rightarrow> error + real" where
  "as_double (Num x) = Inr x"
| "as_double (Chr s) = Inl NotCompatible"

record lossFactory =
  type :: string
  loss_param :: List

text \<open>The constructor \<^verbatim>\<open>lossFactory::lossFactory(List loss_param_)\<close>.\<close>

definition lossFactory_new :: "List \<Rightarrow> error + lossFactory" where
  "lossFactory_new params =
     (case List_get params ''type'' of
        Inl e \<Rightarrow> Inl e
      | Inr v \<Rightarrow>
          (case as_string v of
             Inl e \<Rightarrow> Inl e
           | Inr t \<Rightarrow> Inr \<lparr>type = t, loss_param = params\<rparr>))"

text \<open>
  The constructors \<^verbatim>\<open>huberLoss(List)\<close> and \<^verbatim>\<open>pseudoHuberLoss(List)\<close> read
  \<^verbatim>\<open>loss_param_["dHuber"]\<close> as a double.
\<close>

definition read_dHuber :: "List \<Rightarrow> error + real" where
  "read_dHuber params =
     (case List_get params ''dHuber'' of
        Inl e \<Rightarrow> Inl e
      | Inr v \<Rightarrow> as_double v)"

text \<open>\<^verbatim>\<open>lossFactory::createLoss\<close>: \<open>None\<close> is the null pointer.\<close>

definition createLoss :: "lossFactory \<Rightarrow> error + loss option" where
  "createLoss F =
     (if type F = ''log'' then Inr (Some logLoss)
      else if type F = ''squared'' then Inr (Some squaredLoss)
      else if type F = ''absolute'' then Inr (Some absoluteLoss)
      else if type F = ''huber'' then
        (case read_dHuber (loss_param F) of
           Inl e \<Rightarrow> Inl e
         | Inr d \<Rightarrow> Inr (Some (huberLoss d)))
      else if type F = ''pseudoHuber'' then
        (case read_dHuber (loss_param F) of
           Inl e \<Rightarrow> Inl e
         | Inr d \<Rightarrow> Inr (Some (pseudoHuberLoss d)))
      else Inr None)"

text \<open>
  The factory as its caller uses it: construct it from the configuration, then call
  \<^verbatim>\<open>createLoss\<close>.
\<close>

definition lossFactory_createLoss :: "List \<Rightarrow> error + loss option" where
  "lossFactory_createLoss params =
     (case lossFactory_new params of
        Inl e \<Rightarrow> Inl e
      | Inr F \<Rightarrow> createLoss F)"

section \<open>Example collaborators and inputs\<close>

text \<open>
  An identity activation and a plain gradient step with learning rate \<open>lr\<close>, to run the
  layer on concrete inputs.
\<close>

definition act_identity :: Activation where
  "act_identity = \<lparr>eval = (\<lambda>M. Inr M), grad = (\<lambda>M. Inr (map_Mat (\<lambda>x. 1) M))\<rparr>"

definition col_sums :: "mat \<Rightarrow> vec" where
  "col_sums M = map (\<lambda>j. \<Sum>i\<leftarrow>[0..<n_rows M]. Mat_at M i j) [0..<n_cols M]"

definition opt_sgd :: "real \<Rightarrow> unit Optimizer" where
  "opt_sgd lr =
     \<lparr>updateW = (\<lambda>s Wm D A.
        (case Mat_times (Mat_t D) (Mat_t A) of
           Inl e \<Rightarrow> Inl e
         | Inr Gw \<Rightarrow> Mat_minus Wm (map_Mat (\<lambda>x. lr * x) Gw), s)),
      updateb = (\<lambda>s bv D.
        (if length bv = n_cols D
         then Inr (map2 (\<lambda>x g. x - lr * g) bv (col_sums D))
         else Inl IncompatibleDimensions, s))\<rparr>"

text \<open>A layer with two inputs and one output, a batch of two samples and an error signal.\<close>

definition L0 :: "unit Layer" where
  "L0 = \<lparr>n_nodes = 1, W = \<lparr>n_rows = 1, n_cols = 2, mem = [2, 3]\<rparr>, b = [1], O_opt = (),
         A_prev = Mat_empty, Z = Mat_empty\<rparr>"

definition X0 :: mat where
  "X0 = \<lparr>n_rows = 2, n_cols = 2, mem = [1, 2, 3, 4]\<rparr>"

definition E0 :: mat where
  "E0 = \<lparr>n_rows = 2, n_cols = 1, mem = [1, 2]\<rparr>"

text \<open>Targets and predictions, two rows and two columns.\<close>

definition y0 :: mat where
  "y0 = \<lparr>n_rows = 2, n_cols = 2, mem = [1, 0, 0, 1]\<rparr>"

definition y_fit0 :: mat where
  "y_fit0 = \<lparr>n_rows = 2, n_cols = 2, mem = [0, 3, 0, 1]\<rparr>"

section \<open>Facts about matrices\<close>

lemma length_concat_cols:
  "length (concat (map (\<lambda>j. map (f j) [0..<r]) [0..<c])) = r * c"
  by (induction c) simp_all

lemma linear_index_less:
  assumes "i < r" and "j < c"
  shows "i + j * r < r * (c::nat)"
proof -
  have "i + j * r < Suc j * r" using assms(1) by simp
  also have "\<dots> \<le> c * r" using assms(2) by (intro mult_le_mono1) simp
  finally show ?thesis by (simp add: mult.commute)
qed

lemma nth_concat_cols:
  assumes "i < r" and "j < c"
  shows "concat (map (\<lambda>j. map (f j) [0..<r]) [0..<c]) ! (i + j * r) = f j i"
  using assms
proof (induction c)
  case 0
  then show ?case by simp
next
  case (Suc c)
  show ?case
  proof (cases "j < c")
    case True
    then have "i + j * r < r * c" using Suc.prems(1) by (simp add: linear_index_less)
    then show ?thesis using Suc True by (simp add: nth_append length_concat_cols)
  next
    case False
    then have "j = c" using Suc.prems by simp
    then show ?thesis using Suc.prems
      by (simp add: nth_append length_concat_cols mult.commute)
  qed
qed

lemma Mat_init_sel [simp]:
  "n_rows (Mat_init r c f) = r" "n_cols (Mat_init r c f) = c"
  by (simp_all add: Mat_init_def)

lemma wf_Mat_init [simp]: "wf_Mat (Mat_init r c f)"
  by (simp add: wf_Mat_def Mat_init_def length_concat_cols)

lemma Mat_at_init [simp]:
  "i < r \<Longrightarrow> j < c \<Longrightarrow> Mat_at (Mat_init r c f) i j = f i j"
  by (simp add: Mat_at_def Mat_init_def nth_concat_cols)

lemma Mat_init_cong:
  assumes "\<And>i j. i < r \<Longrightarrow> j < c \<Longrightarrow> f i j = g i j"
  shows "Mat_init r c f = Mat_init r c g"
  unfolding Mat_init_def using assms by (auto intro!: arg_cong[where f=concat] map_cong)

lemma nth_concat_cols_linear:
  assumes "k < r * c"
  shows "concat (map (\<lambda>j. map (f j) [0..<r]) [0..<c]) ! k = f (k div r) (k mod r)"
proof -
  have r: "0 < r" using assms by (cases r) simp_all
  have j: "k div r < c" using assms r by (simp add: less_mult_imp_div_less mult.commute)
  have i: "k mod r < r" using r by simp
  have "concat (map (\<lambda>j. map (f j) [0..<r]) [0..<c]) ! (k mod r + k div r * r)
          = f (k div r) (k mod r)"
    using i j by (rule nth_concat_cols)
  then show ?thesis by simp
qed

text \<open>A matrix whose memory has the length its dimensions say is the matrix of its elements.\<close>

lemma Mat_init_at:
  assumes "wf_Mat M"
  shows "Mat_init (n_rows M) (n_cols M) (Mat_at M) = M"
proof -
  have "concat (map (\<lambda>j. map (\<lambda>i. Mat_at M i j) [0..<n_rows M]) [0..<n_cols M]) = mem M"
  proof (rule nth_equalityI)
    show "length (concat (map (\<lambda>j. map (\<lambda>i. Mat_at M i j) [0..<n_rows M]) [0..<n_cols M]))
            = length (mem M)"
      using assms by (simp add: wf_Mat_def length_concat_cols)
  next
    fix k
    assume "k < length (concat (map (\<lambda>j. map (\<lambda>i. Mat_at M i j) [0..<n_rows M]) [0..<n_cols M]))"
    then have "k < n_rows M * n_cols M" by (simp add: length_concat_cols)
    then show "concat (map (\<lambda>j. map (\<lambda>i. Mat_at M i j) [0..<n_rows M]) [0..<n_cols M]) ! k
                 = mem M ! k"
      by (simp add: nth_concat_cols_linear Mat_at_def)
  qed
  then show ?thesis by (simp add: Mat_init_def)
qed

lemma zip_Mat_init:
  assumes "wf_Mat A" and "wf_Mat B" and "same_size A B"
  shows "zip_Mat f A B =
           Inr (Mat_init (n_rows A) (n_cols A) (\<lambda>i j. f (Mat_at A i j) (Mat_at B i j)))"
proof -
  let ?c = "concat (map (\<lambda>j. map (\<lambda>i. f (Mat_at A i j) (Mat_at B i j)) [0..<n_rows A])
                     [0..<n_cols A])"
  have "map2 f (mem A) (mem B) = ?c"
  proof (rule nth_equalityI)
    show "length (map2 f (mem A) (mem B)) = length ?c"
      using assms by (simp add: wf_Mat_def same_size_def length_concat_cols)
  next
    fix k
    assume "k < length (map2 f (mem A) (mem B))"
    then have "k < n_rows A * n_cols A" using assms by (simp add: wf_Mat_def same_size_def)
    then show "map2 f (mem A) (mem B) ! k = ?c ! k"
      using assms by (simp add: nth_concat_cols_linear wf_Mat_def same_size_def Mat_at_def)
  qed
  then show ?thesis using assms(3) by (simp add: zip_Mat_def Mat_init_def)
qed

section \<open>The layer: forward and backward\<close>

lemma forward_value:
  assumes "n_rows X = n_cols (W L)" and "length (b L) = n_rows (W L)"
  shows "forward act L X =
           (let Zc = Mat_init (n_rows (W L)) (n_cols X)
                       (\<lambda>i j. (\<Sum>k\<leftarrow>[0..<n_cols (W L)]. Mat_at (W L) i k * Mat_at X k j)
                              + b L ! i)
            in (eval act Zc, L\<lparr>A_prev := X, Z := Zc\<rparr>))"
proof -
  let ?P = "Mat_init (n_rows (W L)) (n_cols X)
              (\<lambda>i j. \<Sum>k\<leftarrow>[0..<n_cols (W L)]. Mat_at (W L) i k * Mat_at X k j)"
  have 1: "Mat_times (W L) X = Inr ?P" using assms(1) by (simp add: Mat_times_def)
  have 2: "each_col_plus ?P (b L) =
             Inr (Mat_init (n_rows (W L)) (n_cols X)
                   (\<lambda>i j. (\<Sum>k\<leftarrow>[0..<n_cols (W L)]. Mat_at (W L) i k * Mat_at X k j)
                          + b L ! i))"
    using assms(2) by (auto simp: each_col_plus_def intro!: Mat_init_cong)
  show ?thesis by (simp add: forward_def Let_def 1 2)
qed

lemma forward_Inr:
  assumes "forward act L X = (Inr A, L1)"
  shows "n_rows X = n_cols (W L) \<and> length (b L) = n_rows (W L)"
  using assms
  by (auto simp: forward_def Let_def Mat_times_def each_col_plus_def split: if_splits)

text \<open>
  The five ways through \<open>backward\<close>: each of the first four statements may throw, and
  the last one returns the product, or throws.
\<close>

lemma backward_cases:
  "(\<exists>e. grad act (Z L) = Inl e \<and> backward act opt L E = (Inl e, L))
   \<or> (\<exists>G e. grad act (Z L) = Inr G \<and> Mat_schur E (Mat_t G) = Inl e
          \<and> backward act opt L E = (Inl e, L))
   \<or> (\<exists>G D e s1. grad act (Z L) = Inr G \<and> Mat_schur E (Mat_t G) = Inr D
          \<and> updateW opt (O_opt L) (W L) D (A_prev L) = (Inl e, s1)
          \<and> backward act opt L E = (Inl e, L\<lparr>O_opt := s1\<rparr>))
   \<or> (\<exists>G D W1 s1 e s2. grad act (Z L) = Inr G \<and> Mat_schur E (Mat_t G) = Inr D
          \<and> updateW opt (O_opt L) (W L) D (A_prev L) = (Inr W1, s1)
          \<and> updateb opt s1 (b L) D = (Inl e, s2)
          \<and> backward act opt L E = (Inl e, L\<lparr>W := W1, O_opt := s2\<rparr>))
   \<or> (\<exists>G D W1 s1 b1 s2. grad act (Z L) = Inr G \<and> Mat_schur E (Mat_t G) = Inr D
          \<and> updateW opt (O_opt L) (W L) D (A_prev L) = (Inr W1, s1)
          \<and> updateb opt s1 (b L) D = (Inr b1, s2)
          \<and> backward act opt L E = (Mat_times D W1, L\<lparr>W := W1, b := b1, O_opt := s2\<rparr>))"
  by (simp add: backward_def Let_def split: sum.splits prod.splits)

text \<open>
  Claim C2. For a layer with weights \<open>W\<close> and bias \<open>b\<close> (one bias per row of \<open>W\<close>) and
  an input \<open>X\<close> with as many rows as \<open>W\<close> has columns, \<open>forward\<close> stores \<open>X\<close> in
  \<open>A_prev\<close>, computes the pre-activation \<open>Z\<close> whose element in row \<open>i\<close> and column \<open>j\<close>
  is the sum over \<open>k\<close> of \<open>W i k * X k j\<close> plus \<open>b i\<close> (the bias is added to every column
  of \<open>W * X\<close>), stores \<open>Z\<close>, and returns what the activation's \<open>eval\<close> returns on \<open>Z\<close>.
\<close>

theorem forward_preactivation:
  assumes "n_rows X = n_cols (W L)" and "length (b L) = n_rows (W L)"
  shows "\<exists>Zc. forward act L X = (eval act Zc, L\<lparr>A_prev := X, Z := Zc\<rparr>)
            \<and> n_rows Zc = n_rows (W L) \<and> n_cols Zc = n_cols X \<and> wf_Mat Zc
            \<and> (\<forall>i<n_rows (W L). \<forall>j<n_cols X.
                  Mat_at Zc i j =
                    (\<Sum>k\<leftarrow>[0..<n_cols (W L)]. Mat_at (W L) i k * Mat_at X k j) + b L ! i)"
  using forward_value[OF assms, of act] by (auto simp: Let_def)

theorem forward_preactivation_witness:
  "\<exists>Zc. forward act_identity L0 X0 = (Inr Zc, L0\<lparr>A_prev := X0, Z := Zc\<rparr>)
       \<and> Mat_at Zc 0 0 = 9 \<and> Mat_at Zc 0 1 = 19"
  using forward_preactivation[of X0 L0 act_identity]
  by (auto simp: L0_def X0_def act_identity_def Mat_at_def upt_conv_Cons)

text \<open>
  Claim C1. Let \<open>forward\<close> have returned on input \<open>X\<close>, leaving the layer \<open>L1\<close>, and let the
  activation's \<open>grad\<close> return \<open>G\<close> on the cached \<open>Z\<close>, where the incoming \<open>E\<close> has the
  shape of the transpose of \<open>G\<close>. Then the cached \<open>Z\<close> is the pre-activation of that call,
  and \<open>backward\<close> computes \<open>D\<close>, whose element \<open>(i, j)\<close> is \<open>E i j * G j i\<close>, hands \<open>W\<close>, \<open>D\<close>
  and the cached \<open>X\<close> to \<open>updateW\<close> and \<open>b\<close>, \<open>D\<close> to \<open>updateb\<close>, stores the two results
  \<open>W1\<close> and \<open>b1\<close> in the layer, and returns the product of \<open>D\<close> and the updated \<open>W1\<close>.
\<close>

theorem backward_after_forward:
  assumes fwd: "forward act L X = (Inr A, L1)"
    and g: "grad act (Z L1) = Inr G"
    and E: "wf_Mat E" "n_rows E = n_cols G" "n_cols E = n_rows G"
    and D: "D = Mat_init (n_rows E) (n_cols E) (\<lambda>i j. Mat_at E i j * Mat_at G j i)"
    and uW: "updateW opt (O_opt L) (W L) D X = (Inr W1, s1)"
    and ub: "updateb opt s1 (b L) D = (Inr b1, s2)"
  shows "Z L1 = Mat_init (n_rows (W L)) (n_cols X)
                  (\<lambda>i j. (\<Sum>k\<leftarrow>[0..<n_cols (W L)]. Mat_at (W L) i k * Mat_at X k j) + b L ! i)
       \<and> backward act opt L1 E = (Mat_times D W1, L1\<lparr>W := W1, b := b1, O_opt := s2\<rparr>)"
proof -
  note sh = forward_Inr[OF fwd]
  have L1: "L1 = L\<lparr>A_prev := X, Z := Mat_init (n_rows (W L)) (n_cols X)
                  (\<lambda>i j. (\<Sum>k\<leftarrow>[0..<n_cols (W L)]. Mat_at (W L) i k * Mat_at X k j) + b L ! i)\<rparr>"
    using forward_value[of X L act] sh fwd by (simp add: Let_def)
  have sel: "W L1 = W L" "b L1 = b L" "O_opt L1 = O_opt L" "A_prev L1 = X"
    by (simp_all add: L1)
  have "Mat_schur E (Mat_t G) =
          Inr (Mat_init (n_rows E) (n_cols E) (\<lambda>i j. Mat_at E i j * Mat_at (Mat_t G) i j))"
    unfolding Mat_schur_def using E by (intro zip_Mat_init) (simp_all add: Mat_t_def same_size_def)
  also have "Mat_init (n_rows E) (n_cols E) (\<lambda>i j. Mat_at E i j * Mat_at (Mat_t G) i j) = D"
    unfolding D using E by (intro Mat_init_cong) (simp add: Mat_t_def)
  finally have s: "Mat_schur E (Mat_t G) = Inr D" .
  have "backward act opt L1 E = (Mat_times D W1, L1\<lparr>W := W1, b := b1, O_opt := s2\<rparr>)"
    by (simp add: backward_def g s sel uW ub Let_def)
  moreover have "Z L1 = Mat_init (n_rows (W L)) (n_cols X)
                  (\<lambda>i j. (\<Sum>k\<leftarrow>[0..<n_cols (W L)]. Mat_at (W L) i k * Mat_at X k j) + b L ! i)"
    by (subst L1) simp
  ultimately show ?thesis by simp
qed

lemma example_forward:
  "forward act_identity L0 X0 =
     (Inr \<lparr>n_rows = 1, n_cols = 2, mem = [9, 19]\<rparr>,
      L0\<lparr>A_prev := X0, Z := \<lparr>n_rows = 1, n_cols = 2, mem = [9, 19]\<rparr>\<rparr>)"
  by (simp add: forward_def Mat_times_def each_col_plus_def L0_def X0_def act_identity_def
      Mat_init_def Mat_at_def Let_def upt_conv_Cons)

lemma example_updateW:
  "updateW (opt_sgd (1/2)) (O_opt L0) (W L0) E0 X0 =
     (Inr \<lparr>n_rows = 1, n_cols = 2, mem = [-3/2, -2]\<rparr>, ())"
  by (simp add: opt_sgd_def Mat_times_def Mat_t_def Mat_minus_def zip_Mat_def same_size_def
      map_Mat_def L0_def X0_def E0_def Mat_init_def Mat_at_def upt_conv_Cons)

lemma example_updateb:
  "updateb (opt_sgd (1/2)) () (b L0) E0 = (Inr [-1/2], ())"
  by (simp add: opt_sgd_def col_sums_def L0_def E0_def Mat_at_def upt_conv_Cons)

text \<open>
  On the example the returned gradient is \<open>D * W1\<close> for the updated weights
  \<open>W1 = [-3/2, -2]\<close>; the product with the weights before the update, \<open>[2, 3]\<close>, is a
  different matrix.
\<close>

theorem backward_after_forward_witness:
  "backward act_identity (opt_sgd (1/2))
     (L0\<lparr>A_prev := X0, Z := \<lparr>n_rows = 1, n_cols = 2, mem = [9, 19]\<rparr>\<rparr>) E0 =
     (Inr \<lparr>n_rows = 2, n_cols = 2, mem = [-3/2, -3, -2, -4]\<rparr>,
      L0\<lparr>A_prev := X0, Z := \<lparr>n_rows = 1, n_cols = 2, mem = [9, 19]\<rparr>,
         W := \<lparr>n_rows = 1, n_cols = 2, mem = [-3/2, -2]\<rparr>, b := [-1/2]\<rparr>)
   \<and> Mat_times E0 (W L0) = Inr \<lparr>n_rows = 2, n_cols = 2, mem = [2, 4, 3, 6]\<rparr>"
proof -
  let ?L1 = "L0\<lparr>A_prev := X0, Z := \<lparr>n_rows = 1, n_cols = 2, mem = [9, 19]\<rparr>\<rparr>"
  let ?G = "\<lparr>n_rows = 1, n_cols = 2, mem = [1, 1::real]\<rparr>"
  have g: "grad act_identity (Z ?L1) = Inr ?G"
    by (simp add: act_identity_def map_Mat_def)
  have D: "E0 = Mat_init (n_rows E0) (n_cols E0) (\<lambda>i j. Mat_at E0 i j * Mat_at ?G j i)"
    by (simp add: E0_def Mat_init_def Mat_at_def upt_conv_Cons)
  have wf: "wf_Mat E0" by (simp add: wf_Mat_def E0_def)
  have sh: "n_rows E0 = n_cols ?G" "n_cols E0 = n_rows ?G" by (simp_all add: E0_def)
  have "backward act_identity (opt_sgd (1/2)) ?L1 E0 =
     (Mat_times E0 \<lparr>n_rows = 1, n_cols = 2, mem = [-3/2, -2]\<rparr>,
      ?L1\<lparr>W := \<lparr>n_rows = 1, n_cols = 2, mem = [-3/2, -2]\<rparr>, b := [-1/2], O_opt := ()\<rparr>)"
    using backward_after_forward[OF example_forward g wf sh D example_updateW example_updateb,
        THEN conjunct2]
    by simp
  then show ?thesis
    by (simp add: Mat_times_def E0_def L0_def Mat_init_def Mat_at_def upt_conv_Cons)
qed

text \<open>
  Claim C9. \<open>forward\<close> leaves \<open>W\<close> and \<open>b\<close> as they are, whether it returns or throws:
  the layer after the call is the layer before it with \<open>A_prev\<close> and \<open>Z\<close> overwritten.
  When \<open>backward\<close> returns a value, the activation's \<open>grad\<close> returned \<open>G\<close> on the cached
  \<open>Z\<close>, \<open>D\<close> is the product of \<open>E\<close> and the transpose of \<open>G\<close>, element by element,
  the optimizer's \<open>updateW\<close> returned \<open>W1\<close> for the old \<open>W\<close>, this \<open>D\<close> and the
  cached \<open>A_prev\<close>, its \<open>updateb\<close> returned \<open>b1\<close> for the old \<open>b\<close> and this \<open>D\<close>, and
  the layer after the call is the layer before it with \<open>W1\<close>, \<open>b1\<close> and the state of
  the optimizer in place. Whether \<open>backward\<close> returns or throws: if \<open>updateW\<close> returned
  \<open>W1\<close> then \<open>W\<close> is \<open>W1\<close> after the call, and if then \<open>updateb\<close> returned \<open>b1\<close> then
  \<open>b\<close> is \<open>b1\<close>; \<open>W\<close> is never anything but the old \<open>W\<close> or that \<open>W1\<close>, and \<open>b\<close> never
  anything but the old \<open>b\<close> or that \<open>b1\<close>; and the caches \<open>A_prev\<close> and \<open>Z\<close> are unchanged.
\<close>

theorem forward_keeps_parameters:
  "W (snd (forward act L X)) = W L \<and> b (snd (forward act L X)) = b L
   \<and> snd (forward act L X) = L\<lparr>A_prev := X, Z := Z (snd (forward act L X))\<rparr>
   \<and> (\<forall>R. fst (backward act opt L E) = Inr R \<longrightarrow>
         (\<exists>G D W1 s1 b1 s2.
             grad act (Z L) = Inr G \<and> Mat_schur E (Mat_t G) = Inr D
           \<and> updateW opt (O_opt L) (W L) D (A_prev L) = (Inr W1, s1)
           \<and> updateb opt s1 (b L) D = (Inr b1, s2)
           \<and> snd (backward act opt L E) = L\<lparr>W := W1, b := b1, O_opt := s2\<rparr>))
   \<and> (\<forall>G D W1 s1.
         grad act (Z L) = Inr G \<and> Mat_schur E (Mat_t G) = Inr D
         \<and> updateW opt (O_opt L) (W L) D (A_prev L) = (Inr W1, s1)
         \<longrightarrow> W (snd (backward act opt L E)) = W1)
   \<and> (\<forall>G D W1 s1 b1 s2.
         grad act (Z L) = Inr G \<and> Mat_schur E (Mat_t G) = Inr D
         \<and> updateW opt (O_opt L) (W L) D (A_prev L) = (Inr W1, s1)
         \<and> updateb opt s1 (b L) D = (Inr b1, s2)
         \<longrightarrow> b (snd (backward act opt L E)) = b1)
   \<and> (W (snd (backward act opt L E)) = W L
        \<or> (\<exists>G D s1. grad act (Z L) = Inr G \<and> Mat_schur E (Mat_t G) = Inr D
              \<and> updateW opt (O_opt L) (W L) D (A_prev L)
                  = (Inr (W (snd (backward act opt L E))), s1)))
   \<and> (b (snd (backward act opt L E)) = b L
        \<or> (\<exists>G D W1 s1 s2. grad act (Z L) = Inr G \<and> Mat_schur E (Mat_t G) = Inr D
              \<and> updateW opt (O_opt L) (W L) D (A_prev L) = (Inr W1, s1)
              \<and> updateb opt s1 (b L) D = (Inr (b (snd (backward act opt L E))), s2)))
   \<and> A_prev (snd (backward act opt L E)) = A_prev L
   \<and> Z (snd (backward act opt L E)) = Z L"
proof -
  have f: "snd (forward act L X) = L\<lparr>A_prev := X, Z := Z (snd (forward act L X))\<rparr>"
    by (simp add: forward_def Let_def split: sum.splits)
  have fW: "W (snd (forward act L X)) = W L" by (subst f) simp
  have fb: "b (snd (forward act L X)) = b L" by (subst f) simp
  note c = backward_cases[of act L opt E]
  have r: "\<forall>R. fst (backward act opt L E) = Inr R \<longrightarrow>
         (\<exists>G D W1 s1 b1 s2.
             grad act (Z L) = Inr G \<and> Mat_schur E (Mat_t G) = Inr D
           \<and> updateW opt (O_opt L) (W L) D (A_prev L) = (Inr W1, s1)
           \<and> updateb opt s1 (b L) D = (Inr b1, s2)
           \<and> snd (backward act opt L E) = L\<lparr>W := W1, b := b1, O_opt := s2\<rparr>)"
    using c by (elim disjE exE conjE) simp_all
  have w1: "\<forall>G D W1 s1.
         grad act (Z L) = Inr G \<and> Mat_schur E (Mat_t G) = Inr D
         \<and> updateW opt (O_opt L) (W L) D (A_prev L) = (Inr W1, s1)
         \<longrightarrow> W (snd (backward act opt L E)) = W1"
    using c by (elim disjE exE conjE) simp_all
  have b1: "\<forall>G D W1 s1 b1 s2.
         grad act (Z L) = Inr G \<and> Mat_schur E (Mat_t G) = Inr D
         \<and> updateW opt (O_opt L) (W L) D (A_prev L) = (Inr W1, s1)
         \<and> updateb opt s1 (b L) D = (Inr b1, s2)
         \<longrightarrow> b (snd (backward act opt L E)) = b1"
    using c by (elim disjE exE conjE) simp_all
  have w2: "W (snd (backward act opt L E)) = W L
        \<or> (\<exists>G D s1. grad act (Z L) = Inr G \<and> Mat_schur E (Mat_t G) = Inr D
              \<and> updateW opt (O_opt L) (W L) D (A_prev L)
                  = (Inr (W (snd (backward act opt L E))), s1))"
    using c by (elim disjE exE conjE) simp_all
  have b2: "b (snd (backward act opt L E)) = b L
        \<or> (\<exists>G D W1 s1 s2. grad act (Z L) = Inr G \<and> Mat_schur E (Mat_t G) = Inr D
              \<and> updateW opt (O_opt L) (W L) D (A_prev L) = (Inr W1, s1)
              \<and> updateb opt s1 (b L) D = (Inr (b (snd (backward act opt L E))), s2))"
    using c by (elim disjE exE conjE) simp_all
  have a: "A_prev (snd (backward act opt L E)) = A_prev L" "Z (snd (backward act opt L E)) = Z L"
    using c by (elim disjE exE conjE; simp)+
  show ?thesis
    using f fW fb r w1 b1 w2 b2 a by (intro conjI)
qed

text \<open>
  On the example layer \<open>forward\<close> leaves \<open>W = [2, 3]\<close> and \<open>b = [1]\<close>, and \<open>backward\<close>
  after it stores the \<open>[-3/2, -2]\<close> and the \<open>[-1/2]\<close> that the optimizer returns.
\<close>

theorem forward_keeps_parameters_witness:
  "W (snd (forward act_identity L0 X0)) = \<lparr>n_rows = 1, n_cols = 2, mem = [2, 3]\<rparr>
   \<and> b (snd (forward act_identity L0 X0)) = [1]
   \<and> W (snd (backward act_identity (opt_sgd (1/2))
              (L0\<lparr>A_prev := X0, Z := \<lparr>n_rows = 1, n_cols = 2, mem = [9, 19]\<rparr>\<rparr>) E0))
       = \<lparr>n_rows = 1, n_cols = 2, mem = [-3/2, -2]\<rparr>
   \<and> b (snd (backward act_identity (opt_sgd (1/2))
              (L0\<lparr>A_prev := X0, Z := \<lparr>n_rows = 1, n_cols = 2, mem = [9, 19]\<rparr>\<rparr>) E0))
       = [-1/2]"
proof -
  let ?L1 = "L0\<lparr>A_prev := X0, Z := \<lparr>n_rows = 1, n_cols = 2, mem = [9, 19]\<rparr>\<rparr>"
  let ?G = "\<lparr>n_rows = 1, n_cols = 2, mem = [1, 1::real]\<rparr>"
  let ?W1 = "\<lparr>n_rows = 1, n_cols = 2, mem = [-3/2, -2::real]\<rparr>"
  have g: "grad act_identity (Z ?L1) = Inr ?G"
    by (simp add: act_identity_def map_Mat_def)
  have s: "Mat_schur E0 (Mat_t ?G) = Inr E0"
    by (simp add: Mat_schur_def zip_Mat_def same_size_def Mat_t_def E0_def Mat_init_def
        Mat_at_def upt_conv_Cons)
  have uW: "updateW (opt_sgd (1/2)) (O_opt ?L1) (W ?L1) E0 (A_prev ?L1) = (Inr ?W1, ())"
    using example_updateW by simp
  have ub: "updateb (opt_sgd (1/2)) () (b ?L1) E0 = (Inr [-1/2], ())"
    using example_updateb by simp
  note fw = forward_keeps_parameters[of act_identity L0 X0 "opt_sgd (1/2)" E0]
  note bw = forward_keeps_parameters[of act_identity ?L1 X0 "opt_sgd (1/2)" E0]
  have 1: "W (snd (forward act_identity L0 X0)) = \<lparr>n_rows = 1, n_cols = 2, mem = [2, 3]\<rparr>"
    "b (snd (forward act_identity L0 X0)) = [1]"
    using fw by (simp_all add: L0_def)
  have 2: "W (snd (backward act_identity (opt_sgd (1/2)) ?L1 E0)) = ?W1"
    using bw g s uW by blast
  have 3: "b (snd (backward act_identity (opt_sgd (1/2)) ?L1 E0)) = [-1/2]"
    using bw g s uW ub by blast
  show ?thesis using 1 2 3 by simp
qed

text \<open>
  Claim C3, as the code has it. \<open>backward\<close> makes no check that \<open>forward\<close> was called.
  On a freshly constructed layer the cached \<open>Z\<close> is the empty matrix, and \<open>backward\<close>
  runs its statements on it: when the activation's \<open>grad\<close> returns a matrix with no rows
  and no columns for the empty \<open>Z\<close>, every \<open>E\<close> that has a row or a column fails in the
  first statement with the matrix library's error for operands of different dimensions,
  and the layer is left unchanged.
\<close>

theorem backward_fresh:
  assumes "grad act Mat_empty = Inr G" and "n_rows G = 0" and "n_cols G = 0"
    and "n_rows E \<noteq> 0 \<or> n_cols E \<noteq> 0"
  shows "backward act opt (Layer_new nodes_in nodes_out randn s0) E =
           (Inl IncompatibleDimensions, Layer_new nodes_in nodes_out randn s0)"
  using assms
  by (auto simp: backward_def Layer_new_def Mat_schur_def zip_Mat_def same_size_def Mat_t_def)

theorem backward_fresh_witness:
  "backward act_identity (opt_sgd (1/2)) (Layer_new 3 2 (\<lambda>i j. 1) ()) E0 =
     (Inl IncompatibleDimensions, Layer_new 3 2 (\<lambda>i j. 1) ())"
  using backward_fresh[of act_identity Mat_empty E0 "opt_sgd (1/2)" 3 2 "\<lambda>i j. 1" "()"]
  by (simp add: act_identity_def map_Mat_def Mat_empty_def E0_def)

text \<open>
  The claim fails on the code. A fresh layer with two outputs and three inputs, given a
  4 by 2 error signal, fails with the error for operands of different dimensions, the
  same error a layer that has run \<open>forward\<close> raises for an error signal of the wrong
  shape; and a fresh layer with no inputs and no outputs, given the empty error signal,
  returns a result.
\<close>

theorem backward_fresh_counterexample:
  "fst (backward act_identity (opt_sgd (1/2)) (Layer_new 3 2 (\<lambda>i j. 1) ())
          \<lparr>n_rows = 4, n_cols = 2, mem = [1, 1, 1, 1, 1, 1, 1, 1]\<rparr>) = Inl IncompatibleDimensions
   \<and> fst (backward act_identity (opt_sgd (1/2)) (snd (forward act_identity L0 X0))
          \<lparr>n_rows = 4, n_cols = 2, mem = [1, 1, 1, 1, 1, 1, 1, 1]\<rparr>) = Inl IncompatibleDimensions
   \<and> fst (backward act_identity (opt_sgd (1/2)) (Layer_new 0 0 (\<lambda>i j. 1) ()) Mat_empty)
       = Inr Mat_empty"
  by (simp add: backward_def forward_def Layer_new_def act_identity_def opt_sgd_def Mat_schur_def
      Mat_minus_def zip_Mat_def same_size_def Mat_t_def Mat_times_def each_col_plus_def map_Mat_def
      Mat_empty_def Mat_init_def col_sums_def L0_def X0_def)

section \<open>Facts about double arithmetic\<close>

text \<open>Rounding a number that is within half a unit of an integer multiple of the unit.\<close>

lemma round_even_of_int [simp]: "round_even (of_int n) = n"
  by (simp add: round_even_def)




lemma round_even_0 [simp]: "round_even 0 = 0"
  using round_even_of_int[of 0] by simp

lemma RN_0 [simp]: "RN 0 = 0"
  by (simp add: RN_def)


lemma DBL_MAX_pos: "0 < DBL_MAX"
  by (simp add: DBL_MAX_def)

















lemma fl_0 [simp]: "fl 0 = Fin 0"
  using DBL_MAX_pos by (simp add: fl_def Let_def)

text \<open>
  Every double is a fixed point of the rounding, every value of the rounding is a
  double, and the rounding error is at most half a unit.
\<close>

lemma round_even_bounds: "\<bar>of_int (round_even t) - t\<bar> \<le> 1 / 2"
  by (auto simp: round_even_def Let_def abs_if) linarith+

lemma RN_representable:
  assumes "\<bar>n\<bar> < 2 ^ 53" and "- 1074 \<le> k"
  shows "RN (2 powi k * of_int n) = 2 powi k * of_int n"
proof (cases "n = 0")
  case True
  then show ?thesis by simp
next
  case False
  let ?v = "2 powi k * of_int n :: real"
  have vpos: "0 < \<bar>?v\<bar>" using False by (simp add: abs_mult)
  have "\<bar>?v\<bar> < 2 powi k * 2 ^ 53"
    using assms(1) by (simp add: abs_mult)
  also have "\<dots> = 2 powi (k + 53)" by (simp add: power_int_add)
  also have "\<dots> = 2 powr real_of_int (k + 53)"
    by (rule powr_real_of_int'[symmetric]) simp_all
  finally have "log 2 \<bar>?v\<bar> < real_of_int (k + 53)"
    using vpos by (subst log_less_iff) simp_all
  then have "\<lfloor>log 2 \<bar>?v\<bar>\<rfloor> < k + 53" by linarith
  then have le: "expo ?v - 52 \<le> k" using assms(2) by (simp add: expo_def)
  define q where "q = expo ?v - 52"
  define d where "d = nat (k - q)"
  have "k = q + int d" using le by (simp add: d_def q_def)
  then have pk: "(2::real) powi k = 2 powi q * 2 ^ d"
    by (simp add: power_int_add)
  have "?v / 2 powi q = of_int (2 ^ d * n)"
    by (simp add: pk)
  then have "round_even (?v / 2 powi q) = 2 ^ d * n"
    by (simp only: round_even_of_int)
  then have "RN ?v = 2 powi q * of_int (2 ^ d * n)"
    by (simp add: RN_def ulp_def q_def)
  then show ?thesis by (simp add: pk)
qed


lemma abs_less_next_binade:
  assumes "x \<noteq> 0"
  shows "\<bar>x\<bar> < 2 powi (expo x + 1)"
proof -
  have "log 2 \<bar>x\<bar> < real_of_int (\<lfloor>log 2 \<bar>x\<bar>\<rfloor> + 1)" by linarith
  also have "\<dots> \<le> real_of_int (expo x + 1)" by (simp add: expo_def)
  finally have "\<bar>x\<bar> < 2 powr real_of_int (expo x + 1)"
    using assms by (subst (asm) log_less_iff) simp_all
  also have "\<dots> = 2 powi (expo x + 1)" by (rule powr_real_of_int') simp_all
  finally show ?thesis .
qed

lemma RN_is_double:
  "\<exists>n k. RN x = 2 powi k * of_int n \<and> \<bar>n\<bar> < 2 ^ 53 \<and> - 1074 \<le> k"
proof (cases "x = 0")
  case True
  then show ?thesis by (rule_tac x = 0 in exI, rule_tac x = "- 1074" in exI) simp
next
  case False
  define k where "k = expo x - 52"
  define n where "n = round_even (x / ulp x)"
  have k: "- 1074 \<le> k" by (simp add: k_def expo_def)
  have rn: "RN x = 2 powi k * of_int n" by (simp add: RN_def ulp_def k_def n_def)
  have "expo x + 1 = k + 53" by (simp add: k_def)
  then have "\<bar>x\<bar> < 2 powi (k + 53)" using abs_less_next_binade[OF False] by (simp only:)
  also have "\<dots> = 2 powi k * 2 ^ 53" by (simp add: power_int_add)
  finally have "\<bar>x / ulp x\<bar> < 2 ^ 53"
    by (simp add: ulp_def k_def abs_divide field_simps)
  moreover have "\<bar>of_int n - x / ulp x\<bar> \<le> 1 / 2" unfolding n_def by (rule round_even_bounds)
  ultimately have "\<bar>real_of_int n\<bar> < 2 ^ 53 + 1" by linarith
  then have "real_of_int \<bar>n\<bar> < real_of_int (2 ^ 53 + 1)" by simp
  then have "\<bar>n\<bar> < 2 ^ 53 + 1" by (simp only: of_int_less_iff)
  then have "\<bar>n\<bar> \<le> 2 ^ 53" by simp
  then consider "\<bar>n\<bar> < 2 ^ 53" | "n = 2 ^ 53" | "n = - (2 ^ 53)" by linarith
  then show ?thesis
  proof cases
    case 1
    then show ?thesis using rn k by blast
  next
    case 2
    have "RN x = 2 powi (k + 1) * of_int (2 ^ 52)"
      by (simp add: rn 2 power_int_add)
    then show ?thesis using k by (rule_tac x = "2 ^ 52" in exI, rule_tac x = "k + 1" in exI) simp
  next
    case 3
    have "RN x = 2 powi (k + 1) * of_int (- (2 ^ 52))"
      by (simp add: rn 3 power_int_add)
    then show ?thesis using k by (rule_tac x = "- (2 ^ 52)" in exI, rule_tac x = "k + 1" in exI) simp
  qed
qed

lemma RN_RN [simp]: "RN (RN x) = RN x"
proof -
  obtain n k where "RN x = 2 powi k * of_int n" "\<bar>n\<bar> < 2 ^ 53" "- 1074 \<le> k"
    using RN_is_double by blast
  then show ?thesis by (simp add: RN_representable)
qed



















section \<open>Facts about the loss functions\<close>

lemma same_size_dims: "same_size A B \<Longrightarrow> n_rows A = n_rows B \<and> n_cols A = n_cols B"
  by (simp add: same_size_def)

lemma Mat_minus_init:
  assumes "wf_Mat A" and "wf_Mat B" and "same_size A B"
  shows "Mat_minus A B = Inr (Mat_init (n_rows A) (n_cols A) (\<lambda>i j. Mat_at A i j - Mat_at B i j))"
  unfolding Mat_minus_def using assms by (rule zip_Mat_init)

lemma map_Mat_init [simp]: "map_Mat f (Mat_init r c g) = Mat_init r c (\<lambda>i j. f (g i j))"
  by (simp add: map_Mat_def Mat_init_def map_concat comp_def)

lemma n_elem_init [simp]: "n_elem (Mat_init r c f) = r * c"
  by (simp add: n_elem_def)

lemma mem_init_nth:
  "k < r * c \<Longrightarrow> mem (Mat_init r c f) ! k = f (k mod r) (k div r)"
  by (simp add: Mat_init_def nth_concat_cols_linear)

lemma length_mem_init [simp]: "length (mem (Mat_init r c f)) = r * c"
  by (simp add: Mat_init_def length_concat_cols)

lemma n_elem_map_Mat [simp]: "n_elem (map_Mat f M) = n_elem M"
  by (simp add: n_elem_def map_Mat_def)

lemma length_mem_map_Mat [simp]: "length (mem (map_Mat f M)) = length (mem M)"
  by (simp add: map_Mat_def)

lemma mem_map_Mat_nth: "k < length (mem M) \<Longrightarrow> mem (map_Mat f M) ! k = f (mem M ! k)"
  by (simp add: map_Mat_def)

lemma linear_init:
  "\<lparr>n_rows = r, n_cols = c, mem = map h [0..<r * c]\<rparr> = Mat_init r c (\<lambda>i j. h (i + j * r))"
proof -
  have "map h [0..<r * c] = concat (map (\<lambda>j. map (\<lambda>i. h (i + j * r)) [0..<r]) [0..<c])"
    by (rule nth_equalityI) (simp_all add: length_concat_cols nth_concat_cols_linear)
  then show ?thesis by (simp add: Mat_init_def)
qed

lemma sum_list_concat_map: "sum_list (concat xss) = sum_list (map sum_list xss)"
  by (induction xss) simp_all

lemma accu_init: "accu (Mat_init r c f) = (\<Sum>j\<leftarrow>[0..<c]. \<Sum>i\<leftarrow>[0..<r]. f i j)"
  by (simp add: accu_def Mat_init_def sum_list_concat_map comp_def)

text \<open>
  The masked assignment \<^verbatim>\<open>l(find(cond)) = V\<close>, in two steps: the elements read at
  the indices found, and the matrix after the write.
\<close>

lemma fold_update_map:
  assumes "list_all (\<lambda>k. k < length xs) idx"
  shows "fold (\<lambda>(k, x) xs. xs[k := x]) (zip idx (map h idx)) xs
           = map (\<lambda>k. if k \<in> set idx then h k else xs ! k) [0..<length xs]"
  using assms
proof (induction idx arbitrary: xs)
  case Nil
  then show ?case by (simp add: map_nth)
next
  case (Cons a idx)
  have "fold (\<lambda>(k, x) xs. xs[k := x]) (zip (a # idx) (map h (a # idx))) xs
          = fold (\<lambda>(k, x) xs. xs[k := x]) (zip idx (map h idx)) (xs[a := h a])"
    by simp
  also have "\<dots> = map (\<lambda>k. if k \<in> set idx then h k else xs[a := h a] ! k) [0..<length xs]"
    using Cons.IH[of "xs[a := h a]"] Cons.prems by simp
  also have "\<dots> = map (\<lambda>k. if k \<in> set (a # idx) then h k else xs ! k) [0..<length xs]"
    using Cons.prems by (auto simp: nth_list_update)
  finally show ?case .
qed

lemma elem_find:
  assumes "n_elem F = n_elem E"
  shows "elem E (find_Mat p F) =
           Inr \<lparr>n_rows = length (find_Mat p F), n_cols = 1,
                mem = map (\<lambda>k. mem E ! k) (find_Mat p F)\<rparr>"
  using assms by (simp add: elem_def find_Mat_def list_all_iff)

lemma set_elem_find:
  assumes "n_elem F = n_elem l" and "length (mem l) = n_elem l"
    and "n_elem V = length (find_Mat p F)" and "mem V = map h (find_Mat p F)"
  shows "set_elem l (find_Mat p F) V =
           Inr \<lparr>n_rows = n_rows l, n_cols = n_cols l,
                mem = map (\<lambda>k. if p (mem F ! k) then h k else mem l ! k) [0..<n_elem l]\<rparr>"
proof -
  let ?idx = "find_Mat p F"
  have b: "list_all (\<lambda>k. k < n_elem l) ?idx"
    using assms(1) by (simp add: find_Mat_def list_all_iff)
  then have bl: "list_all (\<lambda>k. k < length (mem l)) ?idx"
    using assms(2) by simp
  have "fold (\<lambda>(k, x) xs. xs[k := x]) (zip ?idx (map h ?idx)) (mem l)
          = map (\<lambda>k. if k \<in> set ?idx then h k else mem l ! k) [0..<length (mem l)]"
    using bl by (rule fold_update_map)
  also have "\<dots> = map (\<lambda>k. if p (mem F ! k) then h k else mem l ! k) [0..<n_elem l]"
    using assms by (auto simp: find_Mat_def)
  finally show ?thesis
    using b assms(3,4) by (simp add: set_elem_def)
qed

text \<open>Each loss function on two matrices of the same shape, element by element.\<close>

lemma squaredLoss_eval_init:
  assumes "wf_Mat y" and "wf_Mat y_fit" and "same_size y_fit y"
  shows "squaredLoss_eval y y_fit =
           Inr (divide_uword
                 (Fin (\<Sum>j\<leftarrow>[0..<n_cols y]. \<Sum>i\<leftarrow>[0..<n_rows y].
                         (Mat_at y_fit i j - Mat_at y i j) ^ 2))
                 (n_rows y))"
  using Mat_minus_init[OF assms(2,1,3)] same_size_dims[OF assms(3)]
  by (simp add: squaredLoss_eval_def accu_init)

lemma squaredLoss_grad_init:
  assumes "wf_Mat y" and "wf_Mat y_fit" and "same_size y_fit y"
  shows "squaredLoss_grad y y_fit =
           Inr (Mat_init (n_rows y) (n_cols y) (\<lambda>i j. 2 * (Mat_at y_fit i j - Mat_at y i j)))"
  using Mat_minus_init[OF assms(2,1,3)] same_size_dims[OF assms(3)]
  by (simp add: squaredLoss_grad_def)

lemma absoluteLoss_eval_init:
  assumes "wf_Mat y" and "wf_Mat y_fit" and "same_size y_fit y"
  shows "absoluteLoss_eval y y_fit =
           Inr (divide_uword
                 (Fin (\<Sum>j\<leftarrow>[0..<n_cols y]. \<Sum>i\<leftarrow>[0..<n_rows y].
                         \<bar>Mat_at y_fit i j - Mat_at y i j\<bar>))
                 (n_rows y))"
  using Mat_minus_init[OF assms(2,1,3)] same_size_dims[OF assms(3)]
  by (simp add: absoluteLoss_eval_def accu_init)

lemma absoluteLoss_grad_init:
  assumes "wf_Mat y" and "wf_Mat y_fit" and "same_size y_fit y"
  shows "absoluteLoss_grad y y_fit =
           Inr (Mat_init (n_rows y) (n_cols y) (\<lambda>i j. sgn (Mat_at y_fit i j - Mat_at y i j)))"
  using Mat_minus_init[OF assms(2,1,3)] same_size_dims[OF assms(3)]
  by (simp add: absoluteLoss_grad_def)

lemma pseudoHuberLoss_eval_init:
  assumes "wf_Mat y" and "wf_Mat y_fit" and "same_size y_fit y"
  shows "pseudoHuberLoss_eval dHuber y y_fit =
           Inr (divide_uword
                 (Fin (\<Sum>j\<leftarrow>[0..<n_cols y]. \<Sum>i\<leftarrow>[0..<n_rows y].
                         sqrt (1 + ((Mat_at y_fit i j - Mat_at y i j) / dHuber) ^ 2) - 1))
                 (n_rows y))"
  using Mat_minus_init[OF assms(2,1,3)] same_size_dims[OF assms(3)]
  by (simp add: pseudoHuberLoss_eval_def accu_init)


lemma huberLoss_eval_init:
  assumes "wf_Mat y" and "wf_Mat y_fit" and "same_size y_fit y"
  shows "huberLoss_eval dHuber y y_fit =
           Inr (divide_uword
                 (Fin (\<Sum>j\<leftarrow>[0..<n_cols y]. \<Sum>i\<leftarrow>[0..<n_rows y].
                         if \<bar>Mat_at y_fit i j - Mat_at y i j\<bar> \<le> dHuber
                         then \<bar>Mat_at y_fit i j - Mat_at y i j\<bar> ^ 2 / 2
                         else dHuber * (\<bar>Mat_at y_fit i j - Mat_at y i j\<bar> - dHuber / 2)))
                 (n_rows y))"
proof -
  let ?r = "n_rows y" and ?c = "n_cols y"
  let ?D = "Mat_init ?r ?c (\<lambda>i j. Mat_at y_fit i j - Mat_at y i j)"
  let ?E = "map_Mat abs ?D"
  let ?l = "map_Mat (\<lambda>x. dHuber * (x - dHuber / 2)) ?E"
  let ?iE = "find_Mat (\<lambda>x. x \<le> dHuber) ?E"
  let ?EiE = "\<lparr>n_rows = length ?iE, n_cols = 1, mem = map (\<lambda>k. mem ?E ! k) ?iE\<rparr>"
  let ?R = "Mat_init ?r ?c (\<lambda>i j. if \<bar>Mat_at y_fit i j - Mat_at y i j\<bar> \<le> dHuber
                         then \<bar>Mat_at y_fit i j - Mat_at y i j\<bar> ^ 2 / 2
                         else dHuber * (\<bar>Mat_at y_fit i j - Mat_at y i j\<bar> - dHuber / 2))"
  have m: "Mat_minus y_fit y = Inr ?D"
    using Mat_minus_init[OF assms(2,1,3)] same_size_dims[OF assms(3)] by simp
  have e: "elem ?E ?iE = Inr ?EiE"
    by (rule elem_find) simp
  have "set_elem ?l ?iE (map_Mat (\<lambda>x. x ^ 2 / 2) ?EiE) =
          Inr \<lparr>n_rows = n_rows ?l, n_cols = n_cols ?l,
               mem = map (\<lambda>k. if mem ?E ! k \<le> dHuber then (mem ?E ! k) ^ 2 / 2
                               else mem ?l ! k) [0..<n_elem ?l]\<rparr>"
    by (rule set_elem_find) (simp_all add: n_elem_def map_Mat_def)
  also have "\<dots> = Inr ?R"
    by (simp add: map_Mat_def[of _ ?D] map_Mat_def[of _ "map_Mat abs ?D"] linear_init)
       (auto intro!: Mat_init_cong simp: mem_init_nth mem_map_Mat_nth linear_index_less)
  finally have s: "set_elem ?l ?iE (map_Mat (\<lambda>x. x ^ 2 / 2) ?EiE) = Inr ?R" .
  have a: "accu ?R = (\<Sum>j\<leftarrow>[0..<n_cols y]. \<Sum>i\<leftarrow>[0..<n_rows y].
                         if \<bar>Mat_at y_fit i j - Mat_at y i j\<bar> \<le> dHuber
                         then \<bar>Mat_at y_fit i j - Mat_at y i j\<bar> ^ 2 / 2
                         else dHuber * (\<bar>Mat_at y_fit i j - Mat_at y i j\<bar> - dHuber / 2))"
    by (rule accu_init)
  show ?thesis
    by (simp only: huberLoss_eval_def Let_def m e s sum.case a)
qed

lemma huberLoss_grad_init:
  assumes "wf_Mat y" and "wf_Mat y_fit" and "same_size y_fit y"
  shows "huberLoss_grad dHuber y y_fit =
           Inr (Mat_init (n_rows y) (n_cols y)
                 (\<lambda>i j. if \<bar>Mat_at y_fit i j - Mat_at y i j\<bar> \<le> dHuber
                        then Mat_at y_fit i j - Mat_at y i j
                        else dHuber * sgn (Mat_at y_fit i j - Mat_at y i j)))"
proof -
  let ?r = "n_rows y" and ?c = "n_cols y"
  let ?E = "Mat_init ?r ?c (\<lambda>i j. Mat_at y_fit i j - Mat_at y i j)"
  let ?dl = "map_Mat (\<lambda>x. dHuber * sgn x) ?E"
  let ?iE = "find_Mat (\<lambda>x. x \<le> dHuber) (map_Mat abs ?E)"
  let ?EiE = "\<lparr>n_rows = length ?iE, n_cols = 1, mem = map (\<lambda>k. mem ?E ! k) ?iE\<rparr>"
  have m: "Mat_minus y_fit y = Inr ?E"
    using Mat_minus_init[OF assms(2,1,3)] assms(3) by (simp add: same_size_def)
  have e: "elem ?E ?iE = Inr ?EiE"
    by (rule elem_find) simp
  have "set_elem ?dl ?iE ?EiE =
          Inr \<lparr>n_rows = n_rows ?dl, n_cols = n_cols ?dl,
               mem = map (\<lambda>k. if mem (map_Mat abs ?E) ! k \<le> dHuber then mem ?E ! k
                               else mem ?dl ! k) [0..<n_elem ?dl]\<rparr>"
    by (rule set_elem_find) (simp_all add: n_elem_def)
  also have "\<dots> = Inr (Mat_init ?r ?c
                 (\<lambda>i j. if \<bar>Mat_at y_fit i j - Mat_at y i j\<bar> \<le> dHuber
                        then Mat_at y_fit i j - Mat_at y i j
                        else dHuber * sgn (Mat_at y_fit i j - Mat_at y i j)))"
    by (simp add: map_Mat_def[of _ ?E] linear_init)
       (auto intro!: Mat_init_cong simp: mem_init_nth mem_map_Mat_nth linear_index_less)
  finally have s: "set_elem ?dl ?iE ?EiE = Inr (Mat_init ?r ?c
                 (\<lambda>i j. if \<bar>Mat_at y_fit i j - Mat_at y i j\<bar> \<le> dHuber
                        then Mat_at y_fit i j - Mat_at y i j
                        else dHuber * sgn (Mat_at y_fit i j - Mat_at y i j)))" .
  show ?thesis
    by (simp only: huberLoss_grad_def Let_def m e s sum.case)
qed









lemma huber_branches_continuous:
  assumes "0 < (d::real)"
  shows "isCont (\<lambda>x. if \<bar>x\<bar> \<le> d then x else d * sgn x) e"
proof -
  have "(\<lambda>x. if \<bar>x\<bar> \<le> d then x else d * sgn x) = (\<lambda>x. max (- d) (min d x))"
    using assms by (auto simp: fun_eq_iff sgn_if max_def min_def)
  then show ?thesis by (simp add: continuous_max continuous_min)
qed




lemma example_losses_wf: "wf_Mat y0" "wf_Mat y_fit0" "same_size y_fit0 y0"
  by (simp_all add: wf_Mat_def same_size_def y0_def y_fit0_def)

section \<open>The loss functions and the factory\<close>

text \<open>
  Claim C4, as the code has it. For a configuration whose \<open>type\<close> is \<open>log\<close>, \<open>squared\<close>
  or \<open>absolute\<close>, and for one whose \<open>type\<close> is \<open>huber\<close> or \<open>pseudoHuber\<close> and whose
  \<open>dHuber\<close> is a number, the factory returns a new loss of that class, with that
  \<open>dHuber\<close>. The \<open>eval\<close> of the squared loss on matrices of the same shape is the sum
  over all elements of the square of \<open>y_fit - y\<close>, divided by the number of rows of \<open>y\<close>,
  and its \<open>grad\<close> is twice \<open>y_fit - y\<close>. For every other \<open>type\<close> the factory returns the
  null pointer.
\<close>

theorem createLoss_by_type:
  assumes "List_get params ''type'' = Inr (Chr t)"
  shows "(t = ''log'' \<longrightarrow> lossFactory_createLoss params = Inr (Some logLoss))
       \<and> (t = ''squared'' \<longrightarrow> lossFactory_createLoss params = Inr (Some squaredLoss))
       \<and> (t = ''absolute'' \<longrightarrow> lossFactory_createLoss params = Inr (Some absoluteLoss))
       \<and> (\<forall>d. t = ''huber'' \<and> List_get params ''dHuber'' = Inr (Num d) \<longrightarrow>
              lossFactory_createLoss params = Inr (Some (huberLoss d)))
       \<and> (\<forall>d. t = ''pseudoHuber'' \<and> List_get params ''dHuber'' = Inr (Num d) \<longrightarrow>
              lossFactory_createLoss params = Inr (Some (pseudoHuberLoss d)))
       \<and> (t \<noteq> ''log'' \<and> t \<noteq> ''squared'' \<and> t \<noteq> ''absolute'' \<and> t \<noteq> ''huber'' \<and> t \<noteq> ''pseudoHuber''
            \<longrightarrow> lossFactory_createLoss params = Inr None)
       \<and> (\<forall>y y_fit. wf_Mat y \<and> wf_Mat y_fit \<and> same_size y_fit y \<longrightarrow>
              loss_eval squaredLoss y y_fit =
                Inr (divide_uword
                      (Fin (\<Sum>j\<leftarrow>[0..<n_cols y]. \<Sum>i\<leftarrow>[0..<n_rows y].
                              (Mat_at y_fit i j - Mat_at y i j) ^ 2))
                      (n_rows y))
              \<and> loss_grad squaredLoss y y_fit =
                  Inr (Mat_init (n_rows y) (n_cols y)
                        (\<lambda>i j. 2 * (Mat_at y_fit i j - Mat_at y i j))))"
  using assms
  by (simp add: lossFactory_createLoss_def lossFactory_new_def createLoss_def read_dHuber_def
      squaredLoss_eval_init squaredLoss_grad_init)

theorem createLoss_by_type_witness:
  "lossFactory_createLoss [(''type'', Chr ''squared'')] = Inr (Some squaredLoss)
   \<and> lossFactory_createLoss [(''type'', Chr ''huber''), (''dHuber'', Num 2)] = Inr (Some (huberLoss 2))
   \<and> lossFactory_createLoss [(''type'', Chr ''bogus'')] = Inr None
   \<and> loss_eval squaredLoss y0 y_fit0 = Inr (Fin 5)
   \<and> loss_grad squaredLoss y0 y_fit0 = Inr \<lparr>n_rows = 2, n_cols = 2, mem = [-2, 6, 0, 0]\<rparr>"
  using createLoss_by_type[of "[(''type'', Chr ''squared'')]" "''squared''"]
    createLoss_by_type[of "[(''type'', Chr ''huber''), (''dHuber'', Num 2)]" "''huber''"]
    createLoss_by_type[of "[(''type'', Chr ''bogus'')]" "''bogus''"]
  by (simp add: List_get_def wf_Mat_def same_size_def y0_def y_fit0_def Mat_at_def Mat_init_def
      upt_conv_Cons)

text \<open>
  The claim fails on the code for a configuration with \<open>type\<close> \<open>huber\<close> and no
  \<open>dHuber\<close>: the constructor of the loss throws, and no loss is returned. For a
  \<open>type\<close> outside the set the call returns normally, with the null pointer.
\<close>

theorem createLoss_by_type_counterexample:
  "lossFactory_createLoss [(''type'', Chr ''huber'')] = Inl IndexOutOfBounds
   \<and> lossFactory_createLoss [(''type'', Chr ''bogus'')] = Inr None"
  by (simp add: lossFactory_createLoss_def lossFactory_new_def createLoss_def read_dHuber_def
      List_get_def)




text \<open>
  Claim C6. For \<open>dHuber > 0\<close> and \<open>y\<close>, \<open>y_fit\<close> of the same shape, with \<open>E = y_fit - y\<close>:
  every element of the \<open>grad\<close> of the Huber loss is \<open>E\<close> where \<open>\<bar>E\<bar> \<le> dHuber\<close> and
  \<open>dHuber * sign E\<close> elsewhere. Where \<open>\<bar>E\<bar> = dHuber\<close> the two formulas give the same
  value, and the element as a function of \<open>E\<close> is continuous everywhere.
\<close>

theorem huberLoss_grad_entries:
  assumes "0 < dHuber" and "wf_Mat y" and "wf_Mat y_fit" and "same_size y_fit y"
  shows "\<exists>G. huberLoss_grad dHuber y y_fit = Inr G \<and> same_size G y
           \<and> (\<forall>i<n_rows y. \<forall>j<n_cols y.
                 Mat_at G i j =
                   (if \<bar>Mat_at y_fit i j - Mat_at y i j\<bar> \<le> dHuber
                    then Mat_at y_fit i j - Mat_at y i j
                    else dHuber * sgn (Mat_at y_fit i j - Mat_at y i j)))
           \<and> (\<forall>e. \<bar>e\<bar> = dHuber \<longrightarrow> e = dHuber * sgn e)
           \<and> (\<forall>e. isCont (\<lambda>x. if \<bar>x\<bar> \<le> dHuber then x else dHuber * sgn x) e)"
proof -
  have "\<forall>e. \<bar>e\<bar> = dHuber \<longrightarrow> e = dHuber * sgn e"
    by (auto simp: sgn_if abs_if split: if_splits)
  then show ?thesis
    using huberLoss_grad_init[OF assms(2-4), of dHuber] huber_branches_continuous[OF assms(1)]
    by (simp add: same_size_def)
qed

theorem huberLoss_grad_entries_witness:
  "\<exists>G. huberLoss_grad 1 y0 y_fit0 = Inr G
       \<and> Mat_at G 0 0 = -1 \<and> Mat_at G 1 0 = 1 \<and> Mat_at G 0 1 = 0 \<and> Mat_at G 1 1 = 0"
proof -
  obtain G where G: "huberLoss_grad 1 y0 y_fit0 = Inr G"
    and entries: "\<And>i j. i < n_rows y0 \<Longrightarrow> j < n_cols y0 \<Longrightarrow>
          Mat_at G i j =
            (if \<bar>Mat_at y_fit0 i j - Mat_at y0 i j\<bar> \<le> 1
             then Mat_at y_fit0 i j - Mat_at y0 i j
             else 1 * sgn (Mat_at y_fit0 i j - Mat_at y0 i j))"
    using huberLoss_grad_entries[OF _ example_losses_wf, of 1] by auto
  have "Mat_at G 0 0 = -1" "Mat_at G 1 0 = 1" "Mat_at G 0 1 = 0" "Mat_at G 1 1 = 0"
    using entries[of 0 0] entries[of 1 0] entries[of 0 1] entries[of 1 1]
    by (simp_all add: y0_def y_fit0_def Mat_at_def)
  then show ?thesis using G by simp
qed

text \<open>
  Claim C7, as the code has it. For every matrix \<open>y\<close> of finite entries with at least
  one row and every finite \<open>dHuber > 0\<close>, the \<open>eval\<close> of the squared, the absolute, the
  Huber and the pseudo-Huber loss on \<open>y\<close> and \<open>y\<close> is exactly 0. (The entries of a
  \<open>mat\<close> are reals, that is finite doubles. For an entry that is an infinity or a NaN
  the difference of the entry and itself is NaN, and so is the loss.)
\<close>

theorem eval_zero:
  assumes "0 < n_rows y" and "wf_Mat y" and "0 < dHuber"
  shows "loss_eval squaredLoss y y = Inr (Fin 0)
       \<and> loss_eval absoluteLoss y y = Inr (Fin 0)
       \<and> loss_eval (huberLoss dHuber) y y = Inr (Fin 0)
       \<and> loss_eval (pseudoHuberLoss dHuber) y y = Inr (Fin 0)"
  using assms
  by (simp add: squaredLoss_eval_init absoluteLoss_eval_init huberLoss_eval_init
      pseudoHuberLoss_eval_init same_size_def)

theorem eval_zero_witness:
  "loss_eval squaredLoss y0 y0 = Inr (Fin 0)
   \<and> loss_eval absoluteLoss y0 y0 = Inr (Fin 0)
   \<and> loss_eval (huberLoss 1) y0 y0 = Inr (Fin 0)
   \<and> loss_eval (pseudoHuberLoss 1) y0 y0 = Inr (Fin 0)"
  using eval_zero[of y0 1] by (simp add: wf_Mat_def y0_def)

text \<open>
  The claim fails on the code for a matrix with no rows: the sum of no elements is 0, the
  row count is 0, and the quotient of the two is NaN.
\<close>

theorem eval_zero_counterexample:
  "loss_eval squaredLoss Mat_empty Mat_empty = Inr NaN
   \<and> loss_eval absoluteLoss Mat_empty Mat_empty = Inr NaN
   \<and> loss_eval (huberLoss 1) Mat_empty Mat_empty = Inr NaN
   \<and> loss_eval (pseudoHuberLoss 1) Mat_empty Mat_empty = Inr NaN"
  by (simp add: squaredLoss_eval_def absoluteLoss_eval_def huberLoss_eval_def pseudoHuberLoss_eval_def
      Mat_minus_def zip_Mat_def same_size_def Mat_empty_def map_Mat_def accu_def find_Mat_def
      n_elem_def elem_def set_elem_def)

text \<open>
  Claim C8. For \<open>y\<close> and \<open>y_fit\<close> of the same shape, every element of the \<open>grad\<close> of the
  absolute loss is the sign of \<open>y_fit - y\<close>: it is \<open>-1\<close>, \<open>0\<close> or \<open>1\<close>, and it is \<open>0\<close>
  where \<open>y_fit\<close> equals \<open>y\<close>.
\<close>

theorem absoluteLoss_grad_sign:
  assumes "wf_Mat y" and "wf_Mat y_fit" and "same_size y_fit y"
  shows "\<exists>G. absoluteLoss_grad y y_fit = Inr G \<and> same_size G y
           \<and> (\<forall>i<n_rows y. \<forall>j<n_cols y.
                 Mat_at G i j = sgn (Mat_at y_fit i j - Mat_at y i j)
                 \<and> (Mat_at G i j = -1 \<or> Mat_at G i j = 0 \<or> Mat_at G i j = 1)
                 \<and> (Mat_at y_fit i j = Mat_at y i j \<longrightarrow> Mat_at G i j = 0))"
  using absoluteLoss_grad_init[OF assms] by (auto simp: same_size_def sgn_if)

theorem absoluteLoss_grad_sign_witness:
  "\<exists>G. absoluteLoss_grad y0 y_fit0 = Inr G
       \<and> Mat_at G 0 0 = -1 \<and> Mat_at G 1 0 = 1 \<and> Mat_at G 0 1 = 0 \<and> Mat_at G 1 1 = 0"
proof -
  obtain G where G: "absoluteLoss_grad y0 y_fit0 = Inr G"
    and entries: "\<And>i j. i < n_rows y0 \<Longrightarrow> j < n_cols y0 \<Longrightarrow>
          Mat_at G i j = sgn (Mat_at y_fit0 i j - Mat_at y0 i j)"
    using absoluteLoss_grad_sign[OF example_losses_wf] by auto
  have "Mat_at G 0 0 = -1" "Mat_at G 1 0 = 1" "Mat_at G 0 1 = 0" "Mat_at G 1 1 = 0"
    using entries[of 0 0] entries[of 1 0] entries[of 0 1] entries[of 1 1]
    by (simp_all add: y0_def y_fit0_def Mat_at_def)
  then show ?thesis using G by simp
qed




end
